theory Spec2Isabelle
  imports Main "HOL-Library.Char_ord" "HOL-Library.List_Lexorder"
begin

section \<open>Data model\<close>

text \<open>
  A JavaScript \<^verbatim>\<open>Error\<close> is identified with its \<^verbatim>\<open>message\<close>: the service only ever reads
  \<^verbatim>\<open>error.message\<close>. The source distinguishes its failures by message text alone.
\<close>

datatype exn = Error string

fun message_of :: "exn \<Rightarrow> string" where
  "message_of (Error m) = m"

text \<open>The four lifecycle statuses, stored as the texts \<^verbatim>\<open>'pending'\<close>, \<^verbatim>\<open>'processing'\<close>,
  \<^verbatim>\<open>'sent'\<close>, \<^verbatim>\<open>'failed'\<close>.\<close>

datatype status = Pending | Processing | Sent | Failed

fun status_text :: "status \<Rightarrow> string" where
  "status_text Pending = ''pending''"
| "status_text Processing = ''processing''"
| "status_text Sent = ''sent''"
| "status_text Failed = ''failed''"

text \<open>
  The values a \<^verbatim>\<open>metadata\<close> entry takes in the providers: a string, a boolean, or a nested
  object or array that is handed on unread.
\<close>

datatype jsval = JStr string | JBool bool | JData "(string \<times> string) list"

text \<open>\<^verbatim>\<open>notification.metadata\<close>: absent, \<^verbatim>\<open>null\<close>, or an object (keys in insertion order).\<close>

datatype metadata = MUndefined | MNull | MObject "(string \<times> jsval) list"

text \<open>
  The object a provider's \<^verbatim>\<open>send\<close> resolves with. The providers fill different subsets of
  the fields; a field a provider does not write is \<open>None\<close>.
\<close>

record delivery_result =
  d_success :: bool
  d_messageId :: "string option"
  d_error :: "string option"
  d_provider :: string
  d_timestamp :: "string option"
  d_response :: "string option"
  d_status :: "string option"
  d_statusCode :: "int option"
  d_statusText :: "string option"
  d_to :: "string option"
  d_from :: "string option"
  d_segments :: "nat option"

text \<open>
  The in-memory notification object that travels through the queue. Every property other
  than \<^verbatim>\<open>id\<close> may be missing (\<^verbatim>\<open>undefined\<close>); \<^verbatim>\<open>id\<close> is always a non-empty string, since both
  entry points assign one before the object is built.
\<close>

record notification =
  n_id :: string
  n_recipient :: "string option"
  n_message :: "string option"
  n_type :: "string option"
  n_priority :: "string option"
  n_metadata :: metadata
  n_timestamp :: "string option"
  n_status :: "status option"
  n_providerResponse :: "delivery_result option"
  n_error :: "string option"
  n_retryCount :: "nat option"
  n_createdAt :: "string option"
  n_updatedAt :: "string option"
  n_sentAt :: "string option"
  n_failedAt :: "string option"

text \<open>
  One row of the table \<^verbatim>\<open>notifications\<close> (DatabaseService.createTables). A nullable column
  is an \<open>option\<close>; the JSON text columns hold the value they serialise.
\<close>

record row =
  c_id :: string
  c_recipient :: string
  c_message :: string
  c_type :: string
  c_priority :: string
  c_status :: status
  c_metadata :: "(string \<times> jsval) list"
  c_providerResponse :: "delivery_result option"
  c_error :: "string option"
  c_retryCount :: nat
  c_createdAt :: string
  c_updatedAt :: string
  c_sentAt :: "string option"
  c_failedAt :: "string option"

type_synonym database = "row list"

text \<open>JavaScript's \<^verbatim>\<open>x || d\<close> on an optional string: \<^verbatim>\<open>undefined\<close> and \<^verbatim>\<open>''\<close> are falsy.\<close>

fun or_else :: "string option \<Rightarrow> string \<Rightarrow> string" where
  "or_else None d = d"
| "or_else (Some x) d = (if x = [] then d else x)"

text \<open>String conversion of an optional string inside a template literal.\<close>

fun js_string :: "string option \<Rightarrow> string" where
  "js_string None = ''undefined''"
| "js_string (Some x) = x"

section \<open>DatabaseService\<close>

text \<open>
  The table is the list of its rows in insertion order. Input/output faults of the SQLite
  driver are outside the model: a statement fails only by a constraint of the schema.
  Every \<^verbatim>\<open>new Date().toISOString()\<close> read during one call is the argument \<open>now\<close>.
\<close>

definition metadata_json :: "metadata \<Rightarrow> (string \<times> jsval) list" where
  "metadata_json m = (case m of MObject kvs \<Rightarrow> kvs | _ \<Rightarrow> [])"

definition saveNotification :: "string \<Rightarrow> notification \<Rightarrow> database \<Rightarrow> exn + database" where
  "saveNotification now n db =
     (case n_recipient n of
        None \<Rightarrow> Inl (Error ''SQLITE_CONSTRAINT: NOT NULL constraint failed: notifications.recipient'')
      | Some recipient \<Rightarrow>
     (case n_message n of
        None \<Rightarrow> Inl (Error ''SQLITE_CONSTRAINT: NOT NULL constraint failed: notifications.message'')
      | Some message \<Rightarrow>
     (case n_type n of
        None \<Rightarrow> Inl (Error ''SQLITE_CONSTRAINT: NOT NULL constraint failed: notifications.type'')
      | Some type \<Rightarrow>
        if n_id n \<in> set (map c_id db)
        then Inl (Error ''SQLITE_CONSTRAINT: UNIQUE constraint failed: notifications.id'')
        else Inr (db @
          [\<lparr> c_id = n_id n,
             c_recipient = recipient,
             c_message = message,
             c_type = type,
             c_priority = or_else (n_priority n) ''normal'',
             c_status = (case n_status n of None \<Rightarrow> Pending | Some st \<Rightarrow> st),
             c_metadata = metadata_json (n_metadata n),
             c_providerResponse = None,
             c_error = None,
             c_retryCount = 0,
             c_createdAt = or_else (n_timestamp n) now,
             c_updatedAt = now,
             c_sentAt = None,
             c_failedAt = None \<rparr>]))))"

text \<open>One entry of the \<^verbatim>\<open>updates\<close> object handed to \<^verbatim>\<open>updateNotification\<close>.\<close>

datatype assignment =
    Set_status status
  | Set_providerResponse delivery_result
  | Set_sentAt string
  | Set_error string
  | Set_failedAt string
  | Set_retryCount nat

fun assign :: "assignment \<Rightarrow> row \<Rightarrow> row" where
  "assign (Set_status v) r = r\<lparr>c_status := v\<rparr>"
| "assign (Set_providerResponse v) r = r\<lparr>c_providerResponse := Some v\<rparr>"
| "assign (Set_sentAt v) r = r\<lparr>c_sentAt := Some v\<rparr>"
| "assign (Set_error v) r = r\<lparr>c_error := Some v\<rparr>"
| "assign (Set_failedAt v) r = r\<lparr>c_failedAt := Some v\<rparr>"
| "assign (Set_retryCount v) r = r\<lparr>c_retryCount := v\<rparr>"

text \<open>\<^verbatim>\<open>UPDATE notifications SET ..., updatedAt = ? WHERE id = ?\<close>: a merge patch; a missing id
  changes no row and is not an error.\<close>

definition updateNotification :: "string \<Rightarrow> string \<Rightarrow> assignment list \<Rightarrow> database \<Rightarrow> database" where
  "updateNotification now ident updates db =
     map (\<lambda>r. if c_id r = ident then (fold assign updates r)\<lparr>c_updatedAt := now\<rparr> else r) db"

text \<open>The object \<^verbatim>\<open>getNotification\<close> builds from a row.\<close>

definition row_object :: "row \<Rightarrow> notification" where
  "row_object r =
     \<lparr> n_id = c_id r,
       n_recipient = Some (c_recipient r),
       n_message = Some (c_message r),
       n_type = Some (c_type r),
       n_priority = Some (c_priority r),
       n_metadata = MObject (c_metadata r),
       n_timestamp = None,
       n_status = Some (c_status r),
       n_providerResponse = c_providerResponse r,
       n_error = c_error r,
       n_retryCount = Some (c_retryCount r),
       n_createdAt = Some (c_createdAt r),
       n_updatedAt = Some (c_updatedAt r),
       n_sentAt = c_sentAt r,
       n_failedAt = c_failedAt r \<rparr>"

definition find_row :: "string \<Rightarrow> database \<Rightarrow> row option" where
  "find_row ident db = find (\<lambda>r. c_id r = ident) db"

definition getNotification :: "string \<Rightarrow> database \<Rightarrow> notification option" where
  "getNotification ident db = map_option row_object (find_row ident db)"

section \<open>Configuration and external collaborators\<close>

text \<open>The entries of \<^verbatim>\<open>config.js\<close> that the services and providers read.\<close>

record config =
  APP_NAME :: string
  EMAIL_FROM :: string
  TWILIO_PHONE_NUMBER :: string
  WEBHOOK_SECRET :: string
  WEBHOOK_TIMEOUT :: int
  ENABLE_EMAIL :: bool
  ENABLE_SMS :: bool
  ENABLE_PUSH :: bool
  ENABLE_WEBHOOK :: bool
  BATCH_SIZE :: int

record mailOptions =
  mo_from :: string
  mo_to :: "string option"
  mo_subject :: jsval
  mo_html :: string
  mo_text :: "string option"
  mo_priority :: string
  mo_attachments :: "jsval option"

record mail_info =
  mi_messageId :: "string option"
  mi_response :: "string option"

record messageOptions =
  so_body :: string
  so_from :: string
  so_to :: "string option"
  so_mediaUrl :: "jsval option"

record sms_message =
  sm_sid :: "string option"
  sm_status :: "string option"
  sm_to :: "string option"
  sm_from :: "string option"

record push_message =
  pm_title :: jsval
  pm_body :: "string option"
  pm_token :: "string option"
  pm_data :: jsval

record webhook_body =
  wb_event :: jsval
  wb_id :: string
  wb_message :: "string option"
  wb_timestamp :: string
  wb_type :: "string option"
  wb_priority :: "string option"
  wb_data :: jsval

record http_response =
  hr_status :: int
  hr_statusText :: "string option"

text \<open>
  What lies outside the repository: the awaited library calls, each of which resolves with
  a value or rejects with an error, and two pieces of literal text. \<open>html_page\<close> is the
  HTML template literal of \<^verbatim>\<open>generateEmailBody\<close> as a function of the values interpolated
  into it (message, title, buttonText, buttonUrl, unsubscribeUrl, priority, id);
  \<open>urgent_prefix\<close> is the literal put before a high-priority SMS, which starts with a
  character outside the 8-bit \<open>char\<close> type.
\<close>

record externals =
  sendMail :: "mailOptions \<Rightarrow> exn + mail_info"
  messages_create :: "messageOptions \<Rightarrow> exn + sms_message"
  messaging_send :: "push_message \<Rightarrow> exn + string option"
  axios_post :: "string option \<Rightarrow> webhook_body \<Rightarrow> exn + http_response"
  html_page :: "string option \<Rightarrow> jsval option \<Rightarrow> jsval option \<Rightarrow> jsval option \<Rightarrow>
                jsval option \<Rightarrow> string option \<Rightarrow> string \<Rightarrow> string"
  urgent_prefix :: string

text \<open>\<^verbatim>\<open>try { body } catch (error) { handler }\<close>.\<close>

definition try_catch :: "exn + 'a \<Rightarrow> (exn \<Rightarrow> exn + 'a) \<Rightarrow> exn + 'a" where
  "try_catch body handler = (case body of Inl e \<Rightarrow> handler e | Inr v \<Rightarrow> Inr v)"

text \<open>Property access \<^verbatim>\<open>metadata.key\<close> on a metadata object, and JavaScript truthiness.\<close>

fun meta_get :: "metadata \<Rightarrow> string \<Rightarrow> jsval option" where
  "meta_get (MObject kvs) k = map_of kvs k"
| "meta_get _ k = None"

fun truthy :: "jsval option \<Rightarrow> bool" where
  "truthy None = False"
| "truthy (Some (JStr s)) = (s \<noteq> [])"
| "truthy (Some (JBool b)) = b"
| "truthy (Some (JData _)) = True"

fun is_object :: "metadata \<Rightarrow> bool" where
  "is_object (MObject _) = True"
| "is_object _ = False"

definition blank_result :: delivery_result where
  "blank_result =
     \<lparr> d_success = False, d_messageId = None, d_error = None, d_provider = [],
       d_timestamp = None, d_response = None, d_status = None, d_statusCode = None,
       d_statusText = None, d_to = None, d_from = None, d_segments = None \<rparr>"

section \<open>EmailProvider\<close>

definition generateSubject :: "config \<Rightarrow> notification \<Rightarrow> jsval" where
  "generateSubject cfg n =
     (if is_object (n_metadata n) \<and> truthy (meta_get (n_metadata n) ''subject'')
      then the (meta_get (n_metadata n) ''subject'')
      else JStr ((if n_priority n = Some ''high'' then ''[URGENT] '' else [])
                 @ ''Notification from '' @ APP_NAME cfg))"

text \<open>Destructuring \<^verbatim>\<open>const { title, ... } = metadata\<close> defaults an absent metadata to
  \<^verbatim>\<open>{}\<close> and throws a TypeError on \<^verbatim>\<open>null\<close>.\<close>

definition generateEmailBody :: "externals \<Rightarrow> notification \<Rightarrow> exn + string" where
  "generateEmailBody ext n =
     (case n_metadata n of
        MNull \<Rightarrow> Inl (Error ''Cannot destructure property 'title' of 'metadata' as it is null.'')
      | m \<Rightarrow> Inr (html_page ext (n_message n) (meta_get m ''title'') (meta_get m ''buttonText'')
                    (meta_get m ''buttonUrl'') (meta_get m ''unsubscribeUrl'')
                    (n_priority n) (n_id n)))"

definition mapPriority :: "string option \<Rightarrow> string" where
  "mapPriority p =
     (if p = Some ''high'' then ''high'' else if p = Some ''low'' then ''low'' else ''normal'')"

definition EmailProvider_body :: "externals \<Rightarrow> config \<Rightarrow> string \<Rightarrow> notification \<Rightarrow> exn + delivery_result" where
  "EmailProvider_body ext cfg now n =
     (case generateEmailBody ext n of
        Inl e \<Rightarrow> Inl e
      | Inr html \<Rightarrow>
          (case sendMail ext
                  \<lparr> mo_from = EMAIL_FROM cfg,
                    mo_to = n_recipient n,
                    mo_subject = generateSubject cfg n,
                    mo_html = html,
                    mo_text = n_message n,
                    mo_priority = mapPriority (n_priority n),
                    mo_attachments =
                      (if is_object (n_metadata n) \<and> truthy (meta_get (n_metadata n) ''attachments'')
                       then meta_get (n_metadata n) ''attachments'' else None) \<rparr> of
             Inl e \<Rightarrow> Inl e
           | Inr info \<Rightarrow>
               Inr (blank_result
                     \<lparr> d_success := True,
                       d_messageId := mi_messageId info,
                       d_response := mi_response info,
                       d_provider := ''email'',
                       d_timestamp := Some now \<rparr>)))"

definition EmailProvider_send :: "externals \<Rightarrow> config \<Rightarrow> string \<Rightarrow> notification \<Rightarrow> exn + delivery_result" where
  "EmailProvider_send ext cfg now n =
     try_catch (EmailProvider_body ext cfg now n)
       (\<lambda>error. Inr (blank_result
                      \<lparr> d_success := False,
                        d_error := Some (message_of error),
                        d_provider := ''email'',
                        d_timestamp := Some now \<rparr>))"

section \<open>SMSProvider\<close>

definition is_digit :: "char \<Rightarrow> bool" where
  "is_digit c = (c \<in> set ''0123456789'')"

text \<open>The regular expression \<^verbatim>\<open>/^\+[1-9]\d{1,14}$/\<close>, tested on the string form of the
  recipient.\<close>

definition isValidPhoneNumber :: "string option \<Rightarrow> bool" where
  "isValidPhoneNumber phoneNumber =
     (case js_string phoneNumber of
        p # d # ds \<Rightarrow> p = CHR ''+'' \<and> d \<in> set ''123456789''
                      \<and> 1 \<le> length ds \<and> length ds \<le> 14 \<and> list_all is_digit ds
      | _ \<Rightarrow> False)"

text \<open>A missing message stays \<^verbatim>\<open>undefined\<close> unless a prefix or the signature is concatenated
  to it; reading \<^verbatim>\<open>.length\<close> of \<^verbatim>\<open>undefined\<close> throws.\<close>

definition formatSMSMessage :: "externals \<Rightarrow> config \<Rightarrow> notification \<Rightarrow> exn + string" where
  "formatSMSMessage ext cfg n =
     (let m0 = n_message n;
          m1 = (if n_priority n = Some ''high'' then Some (urgent_prefix ext @ js_string m0) else m0);
          m2 = (if is_object (n_metadata n)
                   \<and> meta_get (n_metadata n) ''includeSignature'' \<noteq> Some (JBool False)
                then Some (js_string m1 @ [CHR 0x0A, CHR 0x0A] @ ''- '' @ APP_NAME cfg) else m1)
      in case m2 of
           None \<Rightarrow> Inl (Error ''Cannot read properties of undefined (reading 'length')'')
         | Some m \<Rightarrow> Inr (if length m > 1600 then take (1600 - 3) m @ ''...'' else m))"

definition calculateSMSSegments :: "string \<Rightarrow> nat" where
  "calculateSMSSegments m = (if length m \<le> 160 then 1 else (length m + 152) div 153)"

definition SMSProvider_body :: "externals \<Rightarrow> config \<Rightarrow> string \<Rightarrow> notification \<Rightarrow> exn + delivery_result" where
  "SMSProvider_body ext cfg now n =
     (if \<not> isValidPhoneNumber (n_recipient n) then Inl (Error ''Invalid phone number format'')
      else case formatSMSMessage ext cfg n of
        Inl e \<Rightarrow> Inl e
      | Inr m \<Rightarrow>
          (case messages_create ext
                  \<lparr> so_body = m,
                    so_from = TWILIO_PHONE_NUMBER cfg,
                    so_to = n_recipient n,
                    so_mediaUrl =
                      (if is_object (n_metadata n) \<and> truthy (meta_get (n_metadata n) ''mediaUrl'')
                       then meta_get (n_metadata n) ''mediaUrl'' else None) \<rparr> of
             Inl e \<Rightarrow> Inl e
           | Inr result \<Rightarrow>
               Inr (blank_result
                     \<lparr> d_success := True,
                       d_messageId := sm_sid result,
                       d_status := sm_status result,
                       d_provider := ''sms'',
                       d_timestamp := Some now,
                       d_to := sm_to result,
                       d_from := sm_from result,
                       d_segments := Some (calculateSMSSegments m) \<rparr>)))"

definition SMSProvider_send :: "externals \<Rightarrow> config \<Rightarrow> string \<Rightarrow> notification \<Rightarrow> exn + delivery_result" where
  "SMSProvider_send ext cfg now n =
     try_catch (SMSProvider_body ext cfg now n)
       (\<lambda>error. Inr (blank_result
                      \<lparr> d_success := False,
                        d_error := Some (message_of error),
                        d_provider := ''sms'',
                        d_timestamp := Some now \<rparr>))"

section \<open>PushProvider and WebhookProvider\<close>

text \<open>\<^verbatim>\<open>notification.metadata?.key || fallback\<close>.\<close>

definition meta_or :: "metadata \<Rightarrow> string \<Rightarrow> jsval \<Rightarrow> jsval" where
  "meta_or m k fallback = (if truthy (meta_get m k) then the (meta_get m k) else fallback)"

definition PushProvider_body :: "externals \<Rightarrow> notification \<Rightarrow> exn + delivery_result" where
  "PushProvider_body ext n =
     (case messaging_send ext
             \<lparr> pm_title = meta_or (n_metadata n) ''title'' (JStr ''New Notification''),
               pm_body = n_message n,
               pm_token = n_recipient n,
               pm_data = meta_or (n_metadata n) ''data'' (JData []) \<rparr> of
        Inl e \<Rightarrow> Inl e
      | Inr messageId \<Rightarrow>
          Inr (blank_result \<lparr> d_success := True, d_provider := ''push'', d_messageId := messageId \<rparr>))"

definition PushProvider_send :: "externals \<Rightarrow> config \<Rightarrow> string \<Rightarrow> notification \<Rightarrow> exn + delivery_result" where
  "PushProvider_send ext cfg now n =
     try_catch (PushProvider_body ext n)
       (\<lambda>error. Inr (blank_result
                      \<lparr> d_success := False,
                        d_provider := ''push'',
                        d_error := Some (message_of error) \<rparr>))"

definition WebhookProvider_body :: "externals \<Rightarrow> string \<Rightarrow> notification \<Rightarrow> exn + delivery_result" where
  "WebhookProvider_body ext now n =
     (case axios_post ext (n_recipient n)
             \<lparr> wb_event = meta_or (n_metadata n) ''event'' (JStr ''notification''),
               wb_id = n_id n,
               wb_message = n_message n,
               wb_timestamp = now,
               wb_type = n_type n,
               wb_priority = n_priority n,
               wb_data = meta_or (n_metadata n) ''data'' (JData []) \<rparr> of
        Inl e \<Rightarrow> Inl e
      | Inr response \<Rightarrow>
          Inr (blank_result
                \<lparr> d_success := True,
                  d_statusCode := Some (hr_status response),
                  d_statusText := hr_statusText response,
                  d_provider := ''webhook'',
                  d_timestamp := Some now \<rparr>))"

definition WebhookProvider_send :: "externals \<Rightarrow> config \<Rightarrow> string \<Rightarrow> notification \<Rightarrow> exn + delivery_result" where
  "WebhookProvider_send ext cfg now n =
     try_catch (WebhookProvider_body ext now n)
       (\<lambda>error. Inr (blank_result
                      \<lparr> d_success := False,
                        d_provider := ''webhook'',
                        d_error := Some (message_of error) \<rparr>))"

section \<open>DatabaseService: queries and retention\<close>

record history_options =
  o_limit :: "int option"
  o_offset :: "int option"
  o_type :: "string option"
  o_status :: "string option"
  o_recipient :: "string option"
  o_startDate :: "string option"
  o_endDate :: "string option"


text \<open>\<^verbatim>\<open>if (x)\<close> on an optional string.\<close>

fun given :: "string option \<Rightarrow> bool" where
  "given None = False"
| "given (Some x) = (x \<noteq> [])"

text \<open>
  The column \<^verbatim>\<open>createdAt\<close> is declared \<^verbatim>\<open>DATETIME\<close> and so has numeric affinity: a bound
  parameter compared with it is read as a number when its text is a numeric literal
  (blanks, a sign, digits with an optional point, an optional exponent, blanks).
\<close>

definition is_space :: "char \<Rightarrow> bool" where
  "is_space c = (c \<in> set [CHR 0x20, CHR 0x09, CHR 0x0A, CHR 0x0B, CHR 0x0C, CHR 0x0D])"

definition is_sign :: "char \<Rightarrow> bool" where
  "is_sign c = (c = CHR ''+'' \<or> c = CHR ''-'')"

definition skip_sign :: "string \<Rightarrow> string" where
  "skip_sign s = (case s of c # cs \<Rightarrow> if is_sign c then cs else s | [] \<Rightarrow> [])"

definition exponent_part :: "string \<Rightarrow> bool" where
  "exponent_part s =
     (case s of
        [] \<Rightarrow> True
      | c # cs \<Rightarrow> (c = CHR ''e'' \<or> c = CHR ''E'')
                   \<and> skip_sign cs \<noteq> [] \<and> list_all is_digit (skip_sign cs))"

definition numeric_literal :: "string \<Rightarrow> bool" where
  "numeric_literal s =
     (let body = skip_sign (rev (dropWhile is_space (rev (dropWhile is_space s))));
          whole = takeWhile is_digit body;
          after = dropWhile is_digit body;
          fraction = (case after of c # cs \<Rightarrow> if c = CHR ''.'' then takeWhile is_digit cs else []
                      | [] \<Rightarrow> []);
          rest = (case after of c # cs \<Rightarrow> if c = CHR ''.'' then dropWhile is_digit cs else after
                  | [] \<Rightarrow> [])
      in (whole \<noteq> [] \<or> fraction \<noteq> []) \<and> exponent_part rest)"

text \<open>
  The \<^verbatim>\<open>WHERE\<close> clause assembled by \<^verbatim>\<open>getNotifications\<close>. Text compares bytewise.
  \<open>like\<close> is SQLite's \<^verbatim>\<open>LIKE\<close> operator (pattern first), taken as a parameter. A stored
  \<^verbatim>\<open>createdAt\<close> is text, the ISO text both entry points pass, and any text is above any
  number: a date bound that is a numeric literal admits every row as a start and no row
  as an end.
\<close>

definition where_clause :: "(string \<Rightarrow> string \<Rightarrow> bool) \<Rightarrow> history_options \<Rightarrow> row \<Rightarrow> bool" where
  "where_clause like opts r =
     ((if given (o_type opts) then c_type r = the (o_type opts) else True)
    \<and> (if given (o_status opts) then status_text (c_status r) = the (o_status opts) else True)
    \<and> (if given (o_recipient opts)
        then like (''%'' @ the (o_recipient opts) @ ''%'') (c_recipient r) else True)
    \<and> (if given (o_startDate opts)
        then numeric_literal (the (o_startDate opts)) \<or> c_createdAt r \<ge> the (o_startDate opts)
        else True)
    \<and> (if given (o_endDate opts)
        then \<not> numeric_literal (the (o_endDate opts)) \<and> c_createdAt r \<le> the (o_endDate opts)
        else True))"


text \<open>
  \<^verbatim>\<open>ORDER BY createdAt DESC\<close>. SQL leaves the order of rows with equal \<^verbatim>\<open>createdAt\<close> open;
  SQLite, over the indexes of the schema, returns them in the order of their insertion
  when the query filters on type or status (it then sorts what the index on that column
  yields), and in the reverse of it otherwise (it then walks the index on \<^verbatim>\<open>createdAt\<close>
  backwards).
\<close>

definition order_by_createdAt_desc :: "history_options \<Rightarrow> row list \<Rightarrow> row list" where
  "order_by_createdAt_desc opts rows =
     (if given (o_type opts) \<or> given (o_status opts)
      then rev (sort_key c_createdAt (rev rows))
      else rev (sort_key c_createdAt rows))"


text \<open>
  \<^verbatim>\<open>DELETE FROM notifications WHERE createdAt < datetime('now', '-N days')\<close>. The argument
  \<open>datetime\<close> is SQLite's clock: \<open>datetime N\<close> is the text that
  \<^verbatim>\<open>datetime('now', '-N days')\<close> evaluates to, of the form \<^verbatim>\<open>YYYY-MM-DD HH:MM:SS\<close>. Both sides
  of \<^verbatim>\<open><\<close> are text and compare bytewise. A negative \<^verbatim>\<open>daysToKeep\<close> makes the modifier
  \<^verbatim>\<open>'--N days'\<close>, which SQLite does not accept: the cutoff is then \<^verbatim>\<open>NULL\<close> and no row is below
  it. The result is \<^verbatim>\<open>this.changes\<close> and the table.
\<close>

definition deleteOldNotifications :: "(int \<Rightarrow> string) \<Rightarrow> int option \<Rightarrow> database \<Rightarrow> nat \<times> database" where
  "deleteOldNotifications datetime daysToKeep db =
     (let days = (case daysToKeep of None \<Rightarrow> 30 | Some d \<Rightarrow> d);
          cutoff = datetime days
      in if days < 0 then (0, db)
         else (length (filter (\<lambda>r. c_createdAt r < cutoff) db),
               filter (\<lambda>r. \<not> c_createdAt r < cutoff) db))"

section \<open>NotificationService\<close>

text \<open>A provider's \<^verbatim>\<open>send\<close>, awaited at time \<open>now\<close>: it resolves with a result or rejects.\<close>

type_synonym provider = "string \<Rightarrow> notification \<Rightarrow> exn + delivery_result"

record service =
  s_db :: database
  s_providers :: "string \<Rightarrow> provider option"
  s_queue :: "notification list"
  s_processing :: bool

definition initializeProviders :: "externals \<Rightarrow> config \<Rightarrow> string \<Rightarrow> provider option" where
  "initializeProviders ext cfg =
     (\<lambda>key. if key = ''email'' \<and> ENABLE_EMAIL cfg then Some (EmailProvider_send ext cfg)
        else if key = ''sms'' \<and> ENABLE_SMS cfg then Some (SMSProvider_send ext cfg)
        else if key = ''push'' \<and> ENABLE_PUSH cfg then Some (PushProvider_send ext cfg)
        else if key = ''webhook'' \<and> ENABLE_WEBHOOK cfg then Some (WebhookProvider_send ext cfg)
        else None)"

text \<open>The constructor: a service over a given database, with an empty queue.\<close>

definition NotificationService :: "externals \<Rightarrow> config \<Rightarrow> database \<Rightarrow> service" where
  "NotificationService ext cfg database =
     \<lparr> s_db = database,
       s_providers = initializeProviders ext cfg,
       s_queue = [],
       s_processing = False \<rparr>"

record queued =
  q_status :: string
  q_id :: string
  q_timestamp :: string

definition sendNotification :: "string \<Rightarrow> notification \<Rightarrow> service \<Rightarrow> (exn + queued) \<times> service" where
  "sendNotification now n s =
     (case saveNotification now n (s_db s) of
        Inl error \<Rightarrow> (Inl error, s)
      | Inr db' \<Rightarrow>
          (Inr \<lparr> q_status = ''queued'', q_id = n_id n, q_timestamp = now \<rparr>,
           s\<lparr>s_db := db', s_queue := s_queue s @ [n]\<rparr>))"

text \<open>
  One element of the array a client posts to the bulk endpoint. A client property outside
  these six is carried along by the spread \<^verbatim>\<open>...notificationData\<close> but never stored.
\<close>

record request =
  rq_id :: "string option"
  rq_recipient :: "string option"
  rq_message :: "string option"
  rq_type :: "string option"
  rq_priority :: "string option"
  rq_metadata :: metadata

record bulk_result =
  b_id :: string
  b_status :: string
  b_result :: "queued option"
  b_error :: "string option"

definition bulk_notification :: "string \<Rightarrow> string \<Rightarrow> request \<Rightarrow> notification" where
  "bulk_notification uuid now rq =
     \<lparr> n_id = or_else (rq_id rq) uuid,
       n_recipient = rq_recipient rq,
       n_message = rq_message rq,
       n_type = rq_type rq,
       n_priority = rq_priority rq,
       n_metadata = rq_metadata rq,
       n_timestamp = Some now,
       n_status = Some Pending,
       n_providerResponse = None,
       n_error = None,
       n_retryCount = None,
       n_createdAt = None,
       n_updatedAt = None,
       n_sentAt = None,
       n_failedAt = None \<rparr>"

text \<open>
  One iteration of the loop in \<^verbatim>\<open>sendBulkNotifications\<close> for an element that is an object;
  \<open>uuid\<close> is what \<^verbatim>\<open>require('uuid').v4()\<close> would return in it.
\<close>

definition bulk_item :: "string \<Rightarrow> string \<Rightarrow> request \<Rightarrow> service \<Rightarrow> bulk_result \<times> service" where
  "bulk_item uuid now rq s =
     (let notification = bulk_notification uuid now rq
      in case sendNotification now notification s of
           (Inr result, s') \<Rightarrow>
             (\<lparr> b_id = n_id notification, b_status = ''queued'',
                b_result = Some result, b_error = None \<rparr>, s')
         | (Inl error, s') \<Rightarrow>
             (\<lparr> b_id = or_else (rq_id rq) ''unknown'', b_status = ''error'',
                b_result = None, b_error = Some (message_of error) \<rparr>, s'))"

text \<open>
  One iteration for any element of the posted array, which the endpoint checks to be an
  array and no further: an object, or \<^verbatim>\<open>null\<close> (\<open>None\<close>). On \<^verbatim>\<open>null\<close> the \<^verbatim>\<open>try\<close> block throws
  a TypeError when it reads \<^verbatim>\<open>notificationData.id\<close>, and the \<^verbatim>\<open>catch\<close> block, which reads
  \<^verbatim>\<open>notificationData.id\<close> again, throws it anew: the iteration throws. An element that is a
  number, a string, a boolean or an array has none of the six properties and behaves as
  the object without them.
\<close>

definition bulk_step :: "string \<Rightarrow> string \<Rightarrow> request option \<Rightarrow> service
                         \<Rightarrow> (exn + bulk_result) \<times> service" where
  "bulk_step uuid now notificationData s =
     (case notificationData of
        None \<Rightarrow> (Inl (Error ''Cannot read properties of null (reading 'id')''), s)
      | Some rq \<Rightarrow> (Inr (fst (bulk_item uuid now rq s)), snd (bulk_item uuid now rq s)))"

text \<open>
  The loop, from iteration \<open>i\<close> on; \<open>uuid i\<close> and \<open>clock i\<close> are the identifier generator
  and the clock as read in iteration \<open>i\<close>. An iteration that throws ends the loop and the
  call: the results gathered so far are lost, the elements after it are not submitted.
\<close>

fun bulk_from :: "nat \<Rightarrow> (nat \<Rightarrow> string) \<Rightarrow> (nat \<Rightarrow> string) \<Rightarrow> request option list \<Rightarrow> service
                  \<Rightarrow> (exn + bulk_result list) \<times> service" where
  "bulk_from i uuid clock [] s = (Inr [], s)"
| "bulk_from i uuid clock (notificationData # rest) s =
     (case bulk_step (uuid i) (clock i) notificationData s of
        (Inl error, s') \<Rightarrow> (Inl error, s')
      | (Inr r, s') \<Rightarrow>
          (case bulk_from (Suc i) uuid clock rest s' of
             (Inl error, s'') \<Rightarrow> (Inl error, s'')
           | (Inr rs, s'') \<Rightarrow> (Inr (r # rs), s'')))"

definition sendBulkNotifications :: "(nat \<Rightarrow> string) \<Rightarrow> (nat \<Rightarrow> string) \<Rightarrow> request option list
                                     \<Rightarrow> service \<Rightarrow> (exn + bulk_result list) \<times> service" where
  "sendBulkNotifications uuid clock notifications s = bulk_from 0 uuid clock notifications s"

text \<open>
  \<^verbatim>\<open>this.providers[notification.type]\<close> is a property read on a plain object: a key the
  object does not own is still found when \<^verbatim>\<open>Object.prototype\<close> has it, and then yields a
  value without a \<^verbatim>\<open>send\<close> method.
\<close>

definition Object_prototype_keys :: "string list" where
  "Object_prototype_keys =
     [''constructor'', ''hasOwnProperty'', ''isPrototypeOf'', ''propertyIsEnumerable'',
      ''toLocaleString'', ''toString'', ''valueOf'', ''__proto__'', ''__defineGetter__'',
      ''__defineSetter__'', ''__lookupGetter__'', ''__lookupSetter__'']"

datatype property = Own provider | Inherited | Undefined

definition provider_for :: "(string \<Rightarrow> provider option) \<Rightarrow> string option \<Rightarrow> property" where
  "provider_for providers type =
     (case providers (js_string type) of
        Some p \<Rightarrow> Own p
      | None \<Rightarrow> if js_string type \<in> set Object_prototype_keys then Inherited else Undefined)"

text \<open>The \<^verbatim>\<open>catch\<close> block of \<^verbatim>\<open>processNotification\<close>: record the failure, then rethrow.\<close>

definition process_failed :: "string \<Rightarrow> string \<Rightarrow> exn \<Rightarrow> database \<Rightarrow> (exn + delivery_result) \<times> database" where
  "process_failed now ident error db =
     (Inl error,
      updateNotification now ident
        [Set_status Failed, Set_error (message_of error), Set_failedAt now] db)"

text \<open>
  \<^verbatim>\<open>processNotification\<close>. The provider sees the object with its status already set to
  \<^verbatim>\<open>'processing'\<close>; the later assignments to the object are not observed by anyone, since
  the object is dropped with its batch, and are left out.
\<close>

definition processNotification :: "string \<Rightarrow> (string \<Rightarrow> provider option) \<Rightarrow> notification \<Rightarrow> database
                                   \<Rightarrow> (exn + delivery_result) \<times> database" where
  "processNotification now providers n db =
     (let db1 = updateNotification now (n_id n) [Set_status Processing] db
      in case provider_for providers (n_type n) of
           Undefined \<Rightarrow>
             process_failed now (n_id n)
               (Error (''No provider found for notification type: '' @ js_string (n_type n))) db1
         | Inherited \<Rightarrow>
             process_failed now (n_id n) (Error ''provider.send is not a function'') db1
         | Own p \<Rightarrow>
             (case p now (n\<lparr>n_status := Some Processing\<rparr>) of
                Inl error \<Rightarrow> process_failed now (n_id n) error db1
              | Inr result \<Rightarrow>
                  (let finalStatus = (if d_success result then Sent else Failed)
                   in (Inr result,
                       updateNotification now (n_id n)
                         [Set_status finalStatus, Set_providerResponse result, Set_sentAt now]
                         db1))))"

text \<open>
  The interval callback of \<^verbatim>\<open>startQueueProcessor\<close> in two parts. \<open>tick_start\<close> is what runs
  when the timer fires: the guard, the flag, the \<^verbatim>\<open>splice\<close> (whose delete count is clamped
  to the queue, a negative count removing nothing). \<open>None\<close> for the batch is the early
  \<^verbatim>\<open>return\<close>. \<open>tick_finish\<close> is the settling of the batch and the \<^verbatim>\<open>finally\<close> block; ticks
  that fire in between see the flag set.
\<close>

definition tick_start :: "config \<Rightarrow> service \<Rightarrow> notification list option \<times> service" where
  "tick_start cfg s =
     (if s_processing s \<or> length (s_queue s) = 0 then (None, s)
      else (Some (take (nat (BATCH_SIZE cfg)) (s_queue s)),
            s\<lparr>s_processing := True, s_queue := drop (nat (BATCH_SIZE cfg)) (s_queue s)\<rparr>))"

text \<open>
  The members of a batch run concurrently, each patching only the row of its own id; they
  are taken here in batch order. Each member's rejection is turned into a value by its
  \<^verbatim>\<open>.catch\<close>, so the settled list holds no rejection.
\<close>

datatype settled = Fulfilled delivery_result | Caught string string

fun dispatch :: "string \<Rightarrow> (string \<Rightarrow> provider option) \<Rightarrow> notification list \<Rightarrow> database
                 \<Rightarrow> settled list \<times> database" where
  "dispatch now providers [] db = ([], db)"
| "dispatch now providers (n # batch) db =
     (let (outcome, db') = processNotification now providers n db;
          (rest, db'') = dispatch now providers batch db'
      in ((case outcome of
             Inr result \<Rightarrow> Fulfilled result
           | Inl error \<Rightarrow> Caught (message_of error) (n_id n)) # rest, db''))"

definition tick_finish :: "string \<Rightarrow> notification list \<Rightarrow> service \<Rightarrow> service" where
  "tick_finish now batch s =
     s\<lparr>s_db := snd (dispatch now (s_providers s) batch (s_db s)), s_processing := False\<rparr>"

text \<open>A tick whose batch settles before the timer fires again.\<close>

definition tick :: "config \<Rightarrow> string \<Rightarrow> service \<Rightarrow> service" where
  "tick cfg now s =
     (case tick_start cfg s of
        (None, s') \<Rightarrow> s'
      | (Some batch, s') \<Rightarrow> tick_finish now batch s')"


record retried =
  rt_success :: bool
  rt_message :: string
  rt_retryCount :: nat

definition retryFailedNotification :: "string \<Rightarrow> string \<Rightarrow> service \<Rightarrow> (exn + retried) \<times> service" where
  "retryFailedNotification now ident s =
     (case getNotification ident (s_db s) of
        None \<Rightarrow> (Inl (Error ''Notification not found''), s)
      | Some notification \<Rightarrow>
          if n_status notification \<noteq> Some Failed
          then (Inl (Error ''Only failed notifications can be retried''), s)
          else
            (let retryCount = (case n_retryCount notification of None \<Rightarrow> 0 | Some k \<Rightarrow> k) + 1;
                 notification' = notification
                   \<lparr> n_status := Some Pending,
                     n_retryCount := Some retryCount,
                     n_error := None,
                     n_failedAt := None \<rparr>
             in (Inr \<lparr> rt_success = True,
                       rt_message = ''Notification queued for retry'',
                       rt_retryCount = retryCount \<rparr>,
                 s\<lparr> s_db := updateNotification now ident
                               [Set_status Pending, Set_retryCount retryCount] (s_db s),
                    s_queue := s_queue s @ [notification'] \<rparr>)))"

section \<open>Concrete inputs\<close>

text \<open>The defaults of \<^verbatim>\<open>config.js\<close>, and the same with the email channel switched off.\<close>

definition default_config :: config where
  "default_config =
     \<lparr> APP_NAME = ''notification-service'',
       EMAIL_FROM = ''notifications@company.com'',
       TWILIO_PHONE_NUMBER = ''+1234567890'',
       WEBHOOK_SECRET = ''webhook_secret_key'',
       WEBHOOK_TIMEOUT = 5000,
       ENABLE_EMAIL = True,
       ENABLE_SMS = True,
       ENABLE_PUSH = True,
       ENABLE_WEBHOOK = True,
       BATCH_SIZE = 100 \<rparr>"

definition email_disabled :: config where
  "email_disabled = default_config\<lparr>ENABLE_EMAIL := False\<rparr>"

text \<open>An environment in which every outbound call is accepted, and one in which every
  outbound call is refused. The two leading characters of \<open>urgent_prefix\<close> stand for the
  two UTF-16 units of the emoji the literal starts with, so that its length is the
  source's eleven.\<close>

definition network_up :: externals where
  "network_up =
     \<lparr> sendMail = (\<lambda>_. Inr \<lparr> mi_messageId = Some ''<m1@company.com>'',
                              mi_response = Some ''250 OK'' \<rparr>),
       messages_create = (\<lambda>opts. Inr \<lparr> sm_sid = Some ''SM1'', sm_status = Some ''sent'',
                                       sm_to = so_to opts, sm_from = Some (so_from opts) \<rparr>),
       messaging_send = (\<lambda>_. Inr (Some ''mock_message_1'')),
       axios_post = (\<lambda>_ _. Inr \<lparr> hr_status = 200, hr_statusText = Some ''OK'' \<rparr>),
       html_page = (\<lambda>_ _ _ _ _ _ _. ''<!DOCTYPE html>''),
       urgent_prefix = ''!! URGENT: '' \<rparr>"

definition network_down :: externals where
  "network_down =
     \<lparr> sendMail = (\<lambda>_. Inl (Error ''connect ECONNREFUSED 127.0.0.1:587'')),
       messages_create = (\<lambda>_. Inl (Error ''SMS delivery failed: Network timeout'')),
       messaging_send = (\<lambda>_. Inl (Error ''messaging/server-unavailable'')),
       axios_post = (\<lambda>_ _. Inl (Error ''timeout of 5000ms exceeded'')),
       html_page = (\<lambda>_ _ _ _ _ _ _. ''<!DOCTYPE html>''),
       urgent_prefix = ''!! URGENT: '' \<rparr>"

text \<open>The notification object the send endpoint builds for an email request, and one of a
  type for which no provider exists.\<close>

definition greeting :: notification where
  "greeting =
     \<lparr> n_id = ''n1'',
       n_recipient = Some ''a@b.com'',
       n_message = Some ''hi'',
       n_type = Some ''email'',
       n_priority = Some ''normal'',
       n_metadata = MObject [],
       n_timestamp = Some ''2024-03-01T10:00:00.000Z'',
       n_status = Some Pending,
       n_providerResponse = None,
       n_error = None,
       n_retryCount = None,
       n_createdAt = None,
       n_updatedAt = None,
       n_sentAt = None,
       n_failedAt = None \<rparr>"

definition fax :: notification where
  "fax = greeting\<lparr>n_id := ''n2'', n_recipient := Some ''+15551234'', n_type := Some ''fax''\<rparr>"

text \<open>A service that has accepted \<open>greeting\<close> and not yet dispatched it.\<close>

definition waiting :: service where
  "waiting = snd (sendNotification ''2024-03-01T10:00:00.000Z'' greeting
                    (NotificationService network_up default_config []))"

text \<open>The same service after a second submission, and a configuration with batches of one.\<close>

definition backlog :: service where
  "backlog = snd (sendNotification ''2024-03-01T10:00:01.000Z'' fax waiting)"

definition one_at_a_time :: config where
  "one_at_a_time = default_config\<lparr>BATCH_SIZE := 1\<rparr>"

text \<open>
  A service without the email channel that has accepted \<open>greeting\<close> and run one tick; a
  later service over the same database with the email channel enabled, asked to retry the
  record; and that service after its next tick.
\<close>

definition undeliverable :: service where
  "undeliverable =
     tick email_disabled ''2024-03-01T10:00:01.000Z''
       (snd (sendNotification ''2024-03-01T10:00:00.000Z'' greeting
               (NotificationService network_up email_disabled [])))"

definition retried :: service where
  "retried =
     snd (retryFailedNotification ''2024-03-01T11:00:00.000Z'' ''n1''
            (NotificationService network_up default_config (s_db undeliverable)))"

definition redelivered :: service where
  "redelivered = tick default_config ''2024-03-01T11:00:01.000Z'' retried"

text \<open>A table with one record created on 31 December 2023 at 23:59:59 and one created on
  1 January 2024 at 00:00:00, both UTC.\<close>

definition archive :: database where
  "archive =
     s_db (snd (sendNotification ''2024-01-01T00:00:00.000Z''
                  (greeting\<lparr>n_id := ''n4'', n_timestamp := Some ''2024-01-01T00:00:00.000Z''\<rparr>)
             (snd (sendNotification ''2023-12-31T23:59:59.000Z''
                  (greeting\<lparr>n_id := ''n3'', n_timestamp := Some ''2023-12-31T23:59:59.000Z''\<rparr>)
             (NotificationService network_up default_config [])))))"


text \<open>A bulk request with a \<^verbatim>\<open>null\<close> element between two well-formed ones.\<close>

definition bulk_with_null :: "request option list" where
  "bulk_with_null =
     [Some \<lparr> rq_id = None, rq_recipient = Some ''user1@example.com'',
              rq_message = Some ''Message 1'', rq_type = Some ''email'',
              rq_priority = Some ''normal'', rq_metadata = MUndefined \<rparr>,
      None,
      Some \<lparr> rq_id = Some ''mine'', rq_recipient = Some ''+1555123456'',
              rq_message = Some ''Message 3'', rq_type = Some ''sms'',
              rq_priority = Some ''normal'', rq_metadata = MUndefined \<rparr>]"

text \<open>A configuration with a negative batch size, as \<^verbatim>\<open>BATCH_SIZE=-1\<close> in the environment
  gives it.\<close>

definition negative_batch :: config where
  "negative_batch = default_config\<lparr>BATCH_SIZE := - 1\<rparr>"



text \<open>An identifier generator and a clock for the iterations of a bulk submission.\<close>

definition uuids :: "nat \<Rightarrow> string" where
  "uuids i = (if i = 0 then ''u0'' else if i = 1 then ''u1'' else ''u2'')"

definition bulk_clock :: "nat \<Rightarrow> string" where
  "bulk_clock i = ''2024-03-01T10:00:02.000Z''"

text \<open>SQLite's clock read on 31 January 2024 at 12:00:00 UTC, tabulated for the modifier
  of the default retention, thirty days; any other modifier is read as zero days.\<close>

definition datetime_31_jan :: "int \<Rightarrow> string" where
  "datetime_31_jan days =
     (if days = 30 then ''2024-01-01 12:00:00'' else ''2024-01-31 12:00:00'')"

section \<open>Facts about the store\<close>

lemma c_id_assign [simp]: "c_id (assign a r) = c_id r"
  by (cases a) simp_all

lemma c_id_fold_assign [simp]: "c_id (fold assign updates r) = c_id r"
  by (induction updates arbitrary: r) simp_all

lemma map_c_id_updateNotification [simp]:
  "map c_id (updateNotification now ident updates db) = map c_id db"
  by (simp add: updateNotification_def)

lemma find_row_updateNotification:
  "find_row i (updateNotification now ident updates db) =
     map_option (\<lambda>r. if c_id r = ident then (fold assign updates r)\<lparr>c_updatedAt := now\<rparr> else r)
       (find_row i db)"
  by (induction db) (simp_all add: find_row_def updateNotification_def)



lemma find_row_Some_id: "find_row i db = Some r \<Longrightarrow> c_id r = i"
  by (induction db) (auto simp: find_row_def split: if_splits)

text \<open>What a dispatch writes when the provider returns a result, whatever its \<^verbatim>\<open>success\<close>:
  status, \<^verbatim>\<open>providerResponse\<close> and \<^verbatim>\<open>sentAt\<close>, and nothing else.\<close>

lemma processNotification_returned_row:
  assumes "providers (js_string (n_type n)) = Some p"
      and "p now (n\<lparr>n_status := Some Processing\<rparr>) = Inr result"
      and "find_row (n_id n) db = Some r"
  shows "fst (processNotification now providers n db) = Inr result
       \<and> find_row (n_id n) (snd (processNotification now providers n db)) =
           Some (r\<lparr> c_status := (if d_success result then Sent else Failed),
                    c_providerResponse := Some result,
                    c_sentAt := Some now,
                    c_updatedAt := now \<rparr>)"
  using assms find_row_Some_id [OF assms(3)]
  by (simp add: processNotification_def provider_for_def find_row_updateNotification)

text \<open>What a retry of a failed record returns, writes and queues: the stored row changes
  in status, retry count and \<^verbatim>\<open>updatedAt\<close> only.\<close>

lemma retryFailedNotification_row:
  assumes "find_row ident (s_db s) = Some r" and "c_status r = Failed"
  shows "fst (retryFailedNotification now ident s) =
           Inr \<lparr> rt_success = True, rt_message = ''Notification queued for retry'',
                 rt_retryCount = c_retryCount r + 1 \<rparr>
       \<and> find_row ident (s_db (snd (retryFailedNotification now ident s))) =
           Some (r\<lparr>c_status := Pending, c_retryCount := c_retryCount r + 1, c_updatedAt := now\<rparr>)
       \<and> s_queue (snd (retryFailedNotification now ident s)) =
           s_queue s @ [(row_object r)\<lparr> n_status := Some Pending,
                                         n_retryCount := Some (c_retryCount r + 1),
                                         n_error := None, n_failedAt := None \<rparr>]"
  using assms find_row_Some_id [OF assms(1)]
  by (simp add: retryFailedNotification_def getNotification_def Let_def
        find_row_updateNotification row_object_def)

lemma waiting_row:
  "find_row ''n1'' (s_db waiting) =
     Some \<lparr> c_id = ''n1'', c_recipient = ''a@b.com'', c_message = ''hi'', c_type = ''email'',
            c_priority = ''normal'', c_status = Pending, c_metadata = [],
            c_providerResponse = None, c_error = None, c_retryCount = 0,
            c_createdAt = ''2024-03-01T10:00:00.000Z'',
            c_updatedAt = ''2024-03-01T10:00:00.000Z'',
            c_sentAt = None, c_failedAt = None \<rparr>"
  by (simp add: waiting_def greeting_def sendNotification_def saveNotification_def
        NotificationService_def metadata_json_def find_row_def)

section \<open>Retry of a record that is absent or not failed\<close>

text \<open>
  C4. A retry of an id with no record fails with the error "Notification not found", and
  a retry of a record whose status is pending, processing or sent fails with the error
  "Only failed notifications can be retried". In both cases the service is returned as it
  was: the store is not written and nothing is put on the queue.
\<close>

theorem retry_rejected_without_mutation:
  "(find_row ident (s_db s) = None \<longrightarrow>
      retryFailedNotification now ident s = (Inl (Error ''Notification not found''), s))
   \<and> (\<forall>r. find_row ident (s_db s) = Some r \<and> c_status r \<in> {Pending, Processing, Sent} \<longrightarrow>
      retryFailedNotification now ident s =
        (Inl (Error ''Only failed notifications can be retried''), s))"
  by (auto simp: retryFailedNotification_def getNotification_def row_object_def)

theorem retry_rejected_without_mutation_witness:
  "retryFailedNotification ''2024-03-01T10:00:05.000Z'' ''n0'' waiting =
     (Inl (Error ''Notification not found''), waiting)
   \<and> retryFailedNotification ''2024-03-01T10:00:05.000Z'' ''n1'' waiting =
     (Inl (Error ''Only failed notifications can be retried''), waiting)"
proof -
  have absent: "find_row ''n0'' (s_db waiting) = None"
    by (simp add: waiting_def greeting_def sendNotification_def saveNotification_def
          NotificationService_def find_row_def)
  note pending = waiting_row
  note fact = retry_rejected_without_mutation
    [of _ waiting "''2024-03-01T10:00:05.000Z''"]
  from fact [of "''n0''"] absent
  have first: "retryFailedNotification ''2024-03-01T10:00:05.000Z'' ''n0'' waiting =
     (Inl (Error ''Notification not found''), waiting)"
    by blast
  from fact [of "''n1''"] pending
  have second: "retryFailedNotification ''2024-03-01T10:00:05.000Z'' ''n1'' waiting =
     (Inl (Error ''Only failed notifications can be retried''), waiting)"
    by simp
  from first second show ?thesis by (rule conjI)
qed

section \<open>The tick of the queue processor\<close>

text \<open>
  C5, as stated: a tick that finds no batch in flight removes min(batchSize, queue length)
  entries from the head of the queue. With the batch size \<open>-1\<close> and two notifications
  queued on an idle service, the tick takes an empty batch and leaves both queued: it
  removes no entry, and the minimum is \<open>-1\<close>.
\<close>

theorem negative_batch_removes_nothing:
  "\<not> s_processing backlog
   \<and> length (s_queue backlog) = 2
   \<and> fst (tick_start negative_batch backlog) = Some []
   \<and> length (s_queue (snd (tick_start negative_batch backlog))) = 2
   \<and> int (length (s_queue backlog) - length (s_queue (snd (tick_start negative_batch backlog))))
       \<noteq> min (BATCH_SIZE negative_batch) (int (length (s_queue backlog)))"
  by code_simp

text \<open>
  C5, amended. A tick that finds a batch still in flight removes nothing and dispatches
  nothing: it leaves the service as it is. A tick that finds the queue empty does the same.
  Otherwise, for a batch size that is not negative, the tick takes a batch of
  min(batchSize, queue length) entries off the head of the queue, in queue order, leaves
  the rest queued, raises the in-flight flag, and dispatches exactly that batch; for a
  negative batch size it takes an empty batch, and the service after the tick is the
  service before it.
\<close>

theorem tick_takes_head_of_queue:
  "(s_processing s \<longrightarrow> tick_start cfg s = (None, s) \<and> tick cfg now s = s)
   \<and> (s_queue s = [] \<longrightarrow> tick_start cfg s = (None, s) \<and> tick cfg now s = s)
   \<and> (\<not> s_processing s \<and> s_queue s \<noteq> [] \<and> 0 \<le> BATCH_SIZE cfg \<longrightarrow>
        (\<exists>batch rest. s_queue s = batch @ rest
           \<and> int (length batch) = min (BATCH_SIZE cfg) (int (length (s_queue s)))
           \<and> tick_start cfg s = (Some batch, s\<lparr>s_processing := True, s_queue := rest\<rparr>)
           \<and> tick cfg now s = tick_finish now batch (s\<lparr>s_processing := True, s_queue := rest\<rparr>)))
   \<and> (\<not> s_processing s \<and> s_queue s \<noteq> [] \<and> BATCH_SIZE cfg < 0 \<longrightarrow>
        tick_start cfg s = (Some [], s\<lparr>s_processing := True\<rparr>) \<and> tick cfg now s = s)"
proof (intro conjI impI)
  assume a: "\<not> s_processing s \<and> s_queue s \<noteq> [] \<and> 0 \<le> BATCH_SIZE cfg"
  let ?k = "nat (BATCH_SIZE cfg)"
  have q: "s_queue s = take ?k (s_queue s) @ drop ?k (s_queue s)" by simp
  have l: "int (length (take ?k (s_queue s))) = min (BATCH_SIZE cfg) (int (length (s_queue s)))"
    using a by (auto simp: min_def)
  have t: "tick_start cfg s =
             (Some (take ?k (s_queue s)),
              s\<lparr>s_processing := True, s_queue := drop ?k (s_queue s)\<rparr>)"
    using a by (simp add: tick_start_def)
  show "\<exists>batch rest. s_queue s = batch @ rest
           \<and> int (length batch) = min (BATCH_SIZE cfg) (int (length (s_queue s)))
           \<and> tick_start cfg s = (Some batch, s\<lparr>s_processing := True, s_queue := rest\<rparr>)
           \<and> tick cfg now s = tick_finish now batch (s\<lparr>s_processing := True, s_queue := rest\<rparr>)"
    using q l t
    by (intro exI[of _ "take ?k (s_queue s)"] exI[of _ "drop ?k (s_queue s)"])
       (simp add: tick_def)
next
  assume n: "\<not> s_processing s \<and> s_queue s \<noteq> [] \<and> BATCH_SIZE cfg < 0"
  then show "tick_start cfg s = (Some [], s\<lparr>s_processing := True\<rparr>)"
    by (simp add: tick_start_def)
  from n show "tick cfg now s = s"
    by (simp add: tick_def tick_start_def tick_finish_def)
qed (simp_all add: tick_start_def tick_def)

theorem tick_takes_head_of_queue_witness:
  "tick_start one_at_a_time (backlog\<lparr>s_processing := True\<rparr>)
     = (None, backlog\<lparr>s_processing := True\<rparr>)
   \<and> s_queue backlog = [greeting, fax]
   \<and> tick_start one_at_a_time backlog =
       (Some [greeting], backlog\<lparr>s_processing := True, s_queue := [fax]\<rparr>)
   \<and> tick_start negative_batch backlog = (Some [], backlog\<lparr>s_processing := True\<rparr>)"
proof -
  have q: "s_queue backlog = [greeting, fax]"
    by (simp add: backlog_def waiting_def sendNotification_def saveNotification_def
          NotificationService_def greeting_def fax_def)
  have idle: "\<not> s_processing backlog"
    by (simp add: backlog_def waiting_def sendNotification_def saveNotification_def
          NotificationService_def greeting_def fax_def)
  have size: "BATCH_SIZE one_at_a_time = 1"
    by (simp add: one_at_a_time_def default_config_def)
  have negative: "BATCH_SIZE negative_batch < 0"
    by (simp add: negative_batch_def default_config_def)
  note busy = tick_takes_head_of_queue
    [of "backlog\<lparr>s_processing := True\<rparr>" one_at_a_time "''2024-03-01T10:00:02.000Z''"]
  note free = tick_takes_head_of_queue
    [of backlog one_at_a_time "''2024-03-01T10:00:02.000Z''"]
  note none = tick_takes_head_of_queue
    [of backlog negative_batch "''2024-03-01T10:00:02.000Z''"]
  from busy have a: "tick_start one_at_a_time (backlog\<lparr>s_processing := True\<rparr>)
                      = (None, backlog\<lparr>s_processing := True\<rparr>)"
    by simp
  from free idle q size obtain batch rest where
    split: "[greeting, fax] = batch @ rest" and len: "length batch = 1"
    and start: "tick_start one_at_a_time backlog =
                  (Some batch, backlog\<lparr>s_processing := True, s_queue := rest\<rparr>)"
    by auto
  from split len have "batch = [greeting] \<and> rest = [fax]"
    by (cases batch) auto
  moreover from none idle q negative
  have "tick_start negative_batch backlog = (Some [], backlog\<lparr>s_processing := True\<rparr>)"
    by simp
  ultimately show ?thesis using start a q by simp
qed

section \<open>A provider result with \<^verbatim>\<open>success: false\<close>\<close>

text \<open>
  C1. The claim is that a notification whose provider returns \<^verbatim>\<open>success: false\<close> is
  recorded as failed with \<^verbatim>\<open>error\<close> and \<^verbatim>\<open>failedAt\<close> set and \<^verbatim>\<open>sentAt\<close> unset. The code runs
  such a result through the branch it shares with successful sends. With the mail
  transport refusing every connection, the email provider returns \<^verbatim>\<open>success: false\<close>, and
  after the tick the stored record has status failed, \<^verbatim>\<open>sentAt\<close> set to the time of the
  dispatch, the provider's result in \<^verbatim>\<open>providerResponse\<close>, and neither \<^verbatim>\<open>error\<close> nor
  \<^verbatim>\<open>failedAt\<close>.
\<close>

theorem failed_result_written_as_sent:
  "find_row ''n1''
     (s_db (tick default_config ''2024-03-01T10:00:05.000Z''
        (snd (sendNotification ''2024-03-01T10:00:00.000Z'' greeting
               (NotificationService network_down default_config []))))) =
   Some \<lparr> c_id = ''n1'', c_recipient = ''a@b.com'', c_message = ''hi'', c_type = ''email'',
          c_priority = ''normal'', c_status = Failed, c_metadata = [],
          c_providerResponse =
            Some (blank_result
                   \<lparr> d_success := False,
                     d_error := Some ''connect ECONNREFUSED 127.0.0.1:587'',
                     d_provider := ''email'',
                     d_timestamp := Some ''2024-03-01T10:00:05.000Z'' \<rparr>),
          c_error = None, c_retryCount = 0,
          c_createdAt = ''2024-03-01T10:00:00.000Z'',
          c_updatedAt = ''2024-03-01T10:00:05.000Z'',
          c_sentAt = Some ''2024-03-01T10:00:05.000Z'', c_failedAt = None \<rparr>"
  by code_simp

section \<open>Retry of a failed record\<close>

text \<open>
  C2. The claim is that a retry of a failed record increments the retry count by one,
  clears \<^verbatim>\<open>error\<close> and \<^verbatim>\<open>failedAt\<close> in the persisted record, stores the status pending and
  puts the record at the tail of the queue. On the record that failed for want of an
  email provider, the retry returns the count 1, writes status pending and count 1, and
  queues an object without \<^verbatim>\<open>error\<close> and \<^verbatim>\<open>failedAt\<close>; the stored row keeps both fields as
  they were.
\<close>

theorem retry_keeps_persisted_error:
  "find_row ''n1'' (s_db undeliverable) =
     Some \<lparr> c_id = ''n1'', c_recipient = ''a@b.com'', c_message = ''hi'', c_type = ''email'',
            c_priority = ''normal'', c_status = Failed, c_metadata = [],
            c_providerResponse = None,
            c_error = Some ''No provider found for notification type: email'',
            c_retryCount = 0,
            c_createdAt = ''2024-03-01T10:00:00.000Z'',
            c_updatedAt = ''2024-03-01T10:00:01.000Z'',
            c_sentAt = None, c_failedAt = Some ''2024-03-01T10:00:01.000Z'' \<rparr>
   \<and> fst (retryFailedNotification ''2024-03-01T10:30:00.000Z'' ''n1'' undeliverable) =
     Inr \<lparr> rt_success = True, rt_message = ''Notification queued for retry'',
           rt_retryCount = 1 \<rparr>
   \<and> find_row ''n1''
       (s_db (snd (retryFailedNotification ''2024-03-01T10:30:00.000Z'' ''n1'' undeliverable))) =
     Some \<lparr> c_id = ''n1'', c_recipient = ''a@b.com'', c_message = ''hi'', c_type = ''email'',
            c_priority = ''normal'', c_status = Pending, c_metadata = [],
            c_providerResponse = None,
            c_error = Some ''No provider found for notification type: email'',
            c_retryCount = 1,
            c_createdAt = ''2024-03-01T10:00:00.000Z'',
            c_updatedAt = ''2024-03-01T10:30:00.000Z'',
            c_sentAt = None, c_failedAt = Some ''2024-03-01T10:00:01.000Z'' \<rparr>
   \<and> map n_id
       (s_queue (snd (retryFailedNotification ''2024-03-01T10:30:00.000Z'' ''n1'' undeliverable)))
     = [''n1'']
   \<and> map n_retryCount
       (s_queue (snd (retryFailedNotification ''2024-03-01T10:30:00.000Z'' ''n1'' undeliverable)))
     = [Some 1]
   \<and> map n_error
       (s_queue (snd (retryFailedNotification ''2024-03-01T10:30:00.000Z'' ''n1'' undeliverable)))
     = [None]
   \<and> map n_failedAt
       (s_queue (snd (retryFailedNotification ''2024-03-01T10:30:00.000Z'' ''n1'' undeliverable)))
     = [None]"
  by code_simp

section \<open>Outcome fields after a retry\<close>

text \<open>
  C3. The claim is that a record in a terminal status has exactly one of \<^verbatim>\<open>sentAt\<close> and
  \<^verbatim>\<open>failedAt\<close>, and not both of \<^verbatim>\<open>providerResponse\<close> and \<^verbatim>\<open>error\<close>. The record that failed
  for want of an email provider, retried on a service over the same database that has
  the provider, and then delivered, ends with status sent and all four fields set: the
  write-back of the delivery is a merge patch, and the retry left \<^verbatim>\<open>error\<close> and \<^verbatim>\<open>failedAt\<close>
  in the store.
\<close>

theorem success_after_retry_keeps_failure_fields:
  "find_row ''n1'' (s_db redelivered) =
     Some \<lparr> c_id = ''n1'', c_recipient = ''a@b.com'', c_message = ''hi'', c_type = ''email'',
            c_priority = ''normal'', c_status = Sent, c_metadata = [],
            c_providerResponse =
              Some (blank_result
                     \<lparr> d_success := True,
                       d_messageId := Some ''<m1@company.com>'',
                       d_response := Some ''250 OK'',
                       d_provider := ''email'',
                       d_timestamp := Some ''2024-03-01T11:00:01.000Z'' \<rparr>),
            c_error = Some ''No provider found for notification type: email'',
            c_retryCount = 1,
            c_createdAt = ''2024-03-01T10:00:00.000Z'',
            c_updatedAt = ''2024-03-01T11:00:01.000Z'',
            c_sentAt = Some ''2024-03-01T11:00:01.000Z'',
            c_failedAt = Some ''2024-03-01T10:00:01.000Z'' \<rparr>"
  by code_simp

section \<open>The providers' \<^verbatim>\<open>send\<close>\<close>

lemma EmailProvider_body_success: "EmailProvider_body ext cfg now n = Inr v \<Longrightarrow> d_success v"
  by (auto simp: EmailProvider_body_def split: sum.splits)

lemma SMSProvider_body_success: "SMSProvider_body ext cfg now n = Inr v \<Longrightarrow> d_success v"
  by (auto simp: SMSProvider_body_def split: sum.splits if_splits)

lemma PushProvider_body_success: "PushProvider_body ext n = Inr v \<Longrightarrow> d_success v"
  by (auto simp: PushProvider_body_def split: sum.splits)

lemma WebhookProvider_body_success: "WebhookProvider_body ext now n = Inr v \<Longrightarrow> d_success v"
  by (auto simp: WebhookProvider_body_def split: sum.splits)

text \<open>
  C6. For each of the four providers, for every notification and every behaviour of the
  outbound call, \<^verbatim>\<open>send\<close> returns a result and throws nothing. When the body of its
  \<^verbatim>\<open>try\<close> block fails with an error, the result has \<^verbatim>\<open>success: false\<close> and carries the
  message of that error in \<^verbatim>\<open>error\<close>; otherwise it is the successful result of the body.
\<close>

theorem send_never_throws:
  "(\<exists>r. EmailProvider_send ext cfg now n = Inr r
        \<and> (case EmailProvider_body ext cfg now n of
              Inl e \<Rightarrow> \<not> d_success r \<and> d_error r = Some (message_of e)
            | Inr v \<Rightarrow> r = v \<and> d_success r))
   \<and> (\<exists>r. SMSProvider_send ext cfg now n = Inr r
        \<and> (case SMSProvider_body ext cfg now n of
              Inl e \<Rightarrow> \<not> d_success r \<and> d_error r = Some (message_of e)
            | Inr v \<Rightarrow> r = v \<and> d_success r))
   \<and> (\<exists>r. PushProvider_send ext cfg now n = Inr r
        \<and> (case PushProvider_body ext n of
              Inl e \<Rightarrow> \<not> d_success r \<and> d_error r = Some (message_of e)
            | Inr v \<Rightarrow> r = v \<and> d_success r))
   \<and> (\<exists>r. WebhookProvider_send ext cfg now n = Inr r
        \<and> (case WebhookProvider_body ext now n of
              Inl e \<Rightarrow> \<not> d_success r \<and> d_error r = Some (message_of e)
            | Inr v \<Rightarrow> r = v \<and> d_success r))"
proof (intro conjI)
  show "\<exists>r. EmailProvider_send ext cfg now n = Inr r
        \<and> (case EmailProvider_body ext cfg now n of
              Inl e \<Rightarrow> \<not> d_success r \<and> d_error r = Some (message_of e)
            | Inr v \<Rightarrow> r = v \<and> d_success r)"
    by (cases "EmailProvider_body ext cfg now n")
       (simp_all add: EmailProvider_send_def try_catch_def blank_result_def
          EmailProvider_body_success)
  show "\<exists>r. SMSProvider_send ext cfg now n = Inr r
        \<and> (case SMSProvider_body ext cfg now n of
              Inl e \<Rightarrow> \<not> d_success r \<and> d_error r = Some (message_of e)
            | Inr v \<Rightarrow> r = v \<and> d_success r)"
    by (cases "SMSProvider_body ext cfg now n")
       (simp_all add: SMSProvider_send_def try_catch_def blank_result_def
          SMSProvider_body_success)
  show "\<exists>r. PushProvider_send ext cfg now n = Inr r
        \<and> (case PushProvider_body ext n of
              Inl e \<Rightarrow> \<not> d_success r \<and> d_error r = Some (message_of e)
            | Inr v \<Rightarrow> r = v \<and> d_success r)"
    by (cases "PushProvider_body ext n")
       (simp_all add: PushProvider_send_def try_catch_def blank_result_def
          PushProvider_body_success)
  show "\<exists>r. WebhookProvider_send ext cfg now n = Inr r
        \<and> (case WebhookProvider_body ext now n of
              Inl e \<Rightarrow> \<not> d_success r \<and> d_error r = Some (message_of e)
            | Inr v \<Rightarrow> r = v \<and> d_success r)"
    by (cases "WebhookProvider_body ext now n")
       (simp_all add: WebhookProvider_send_def try_catch_def blank_result_def
          WebhookProvider_body_success)
qed

theorem send_never_throws_witness:
  "(\<exists>r. EmailProvider_send network_down default_config ''2024-03-01T10:00:05.000Z'' greeting = Inr r
        \<and> \<not> d_success r \<and> d_error r = Some ''connect ECONNREFUSED 127.0.0.1:587'')
   \<and> (\<exists>r. SMSProvider_send network_up default_config ''2024-03-01T10:00:05.000Z'' greeting = Inr r
        \<and> \<not> d_success r \<and> d_error r = Some ''Invalid phone number format'')"
proof -
  have mail: "EmailProvider_body network_down default_config ''2024-03-01T10:00:05.000Z'' greeting
                = Inl (Error ''connect ECONNREFUSED 127.0.0.1:587'')"
    by code_simp
  have sms: "SMSProvider_body network_up default_config ''2024-03-01T10:00:05.000Z'' greeting
                = Inl (Error ''Invalid phone number format'')"
    by code_simp
  note down = send_never_throws
    [of network_down default_config "''2024-03-01T10:00:05.000Z''" greeting]
  note up = send_never_throws
    [of network_up default_config "''2024-03-01T10:00:05.000Z''" greeting]
  from down have a:
    "\<exists>r. EmailProvider_send network_down default_config ''2024-03-01T10:00:05.000Z'' greeting = Inr r
        \<and> \<not> d_success r \<and> d_error r = Some ''connect ECONNREFUSED 127.0.0.1:587''"
    unfolding mail by simp
  from up have b:
    "\<exists>r. SMSProvider_send network_up default_config ''2024-03-01T10:00:05.000Z'' greeting = Inr r
        \<and> \<not> d_success r \<and> d_error r = Some ''Invalid phone number format''"
    unfolding sms by simp
  from a b show ?thesis by (rule conjI)
qed

section \<open>A type without a provider\<close>




section \<open>Bulk submission\<close>

lemma bulk_item_cases:
  "(b_status (fst (bulk_item u t rq s)) = ''queued''
      \<and> b_error (fst (bulk_item u t rq s)) = None
      \<and> b_id (fst (bulk_item u t rq s)) = or_else (rq_id rq) u
      \<and> s_queue (snd (bulk_item u t rq s)) = s_queue s @ [bulk_notification u t rq])
   \<or> (b_status (fst (bulk_item u t rq s)) = ''error''
      \<and> b_error (fst (bulk_item u t rq s)) \<noteq> None
      \<and> b_id (fst (bulk_item u t rq s)) = or_else (rq_id rq) ''unknown''
      \<and> snd (bulk_item u t rq s) = s)"
  by (cases "saveNotification t (bulk_notification u t rq) (s_db s)")
     (simp_all add: bulk_item_def sendNotification_def bulk_notification_def)

lemma bulk_from_Some:
  "bulk_from i uuid clock (Some rq # rest) s =
     (map_sum id ((#) (fst (bulk_item (uuid i) (clock i) rq s)))
        (fst (bulk_from (Suc i) uuid clock rest (snd (bulk_item (uuid i) (clock i) rq s)))),
      snd (bulk_from (Suc i) uuid clock rest (snd (bulk_item (uuid i) (clock i) rq s))))"
  by (simp add: bulk_step_def split: prod.splits sum.splits)

text \<open>While every element is an object, the loop returns one result per element, in
  order, each the outcome of its element on the service as its predecessors left it.\<close>

lemma bulk_from_objects:
  "\<exists>rs. fst (bulk_from i uuid clock (map Some rqs) s) = Inr rs \<and> length rs = length rqs"
proof (induction rqs arbitrary: i s)
  case Nil
  show ?case by simp
next
  case (Cons rq rqs)
  from Cons.IH [of "Suc i" "snd (bulk_item (uuid i) (clock i) rq s)"]
  obtain rs where
    "fst (bulk_from (Suc i) uuid clock (map Some rqs) (snd (bulk_item (uuid i) (clock i) rq s)))
       = Inr rs"
    and "length rs = length rqs"
    by blast
  then show ?case
    by (simp add: bulk_from_Some del: bulk_from.simps(2))
qed

lemma bulk_from_objects_nth:
  "k < length rqs \<Longrightarrow> fst (bulk_from i uuid clock (map Some rqs) s) = Inr rs \<Longrightarrow>
     rs ! k = fst (bulk_item (uuid (i + k)) (clock (i + k)) (rqs ! k)
                     (snd (bulk_from i uuid clock (map Some (take k rqs)) s)))"
proof (induction rqs arbitrary: i s k rs)
  case Nil
  then show ?case by simp
next
  case (Cons rq rqs)
  let ?s' = "snd (bulk_item (uuid i) (clock i) rq s)"
  from bulk_from_objects [of "Suc i" uuid clock rqs ?s']
  obtain rs' where rs': "fst (bulk_from (Suc i) uuid clock (map Some rqs) ?s') = Inr rs'"
    by blast
  with Cons.prems(2) have rs: "rs = fst (bulk_item (uuid i) (clock i) rq s) # rs'"
    by (simp add: bulk_from_Some del: bulk_from.simps(2))
  show ?case
  proof (cases k)
    case 0
    then show ?thesis by (simp add: rs)
  next
    case (Suc j)
    with Cons.prems(1) have "j < length rqs" by simp
    from Cons.IH [OF this rs'] show ?thesis
      using Suc by (simp add: rs bulk_from_Some del: bulk_from.simps(2))
  qed
qed

lemma bulk_from_objects_snoc:
  "snd (bulk_from i uuid clock (map Some rqs @ [Some rq]) s) =
     snd (bulk_item (uuid (i + length rqs)) (clock (i + length rqs)) rq
            (snd (bulk_from i uuid clock (map Some rqs) s)))"
  by (induction rqs arbitrary: i s)
     (simp_all add: bulk_from_Some bulk_step_def del: bulk_from.simps(2))

text \<open>A \<^verbatim>\<open>null\<close> element makes the call throw, with the service as the elements before it
  left it, whatever comes after.\<close>

lemma bulk_from_None:
  "bulk_from i uuid clock (None # rest) s =
     (Inl (Error ''Cannot read properties of null (reading 'id')''), s)"
  by (simp add: bulk_step_def)

lemma bulk_from_null:
  "bulk_from i uuid clock (map Some rqs @ None # rest) s =
     (Inl (Error ''Cannot read properties of null (reading 'id')''),
      snd (bulk_from i uuid clock (map Some rqs) s))"
  by (induction rqs arbitrary: i s)
     (simp_all add: bulk_from_Some bulk_from_None del: bulk_from.simps(2))

text \<open>
  C8. The claim is that bulk submission returns one result per request, in order, and that
  a failing item becomes that item's error result without aborting the rest. The bulk
  endpoint accepts any array, and for a \<^verbatim>\<open>null\<close> element the \<^verbatim>\<open>catch\<close> block of the loop
  throws itself. For a well-formed request, \<^verbatim>\<open>null\<close>, and another well-formed request, the
  call throws a TypeError and returns no results; the first request is stored and
  queued (after the record \<open>n1\<close> the service already held), the third is never submitted.
\<close>

theorem bulk_aborts_on_null_element:
  "fst (sendBulkNotifications uuids bulk_clock bulk_with_null waiting) =
     Inl (Error ''Cannot read properties of null (reading 'id')'')
   \<and> map c_id (s_db (snd (sendBulkNotifications uuids bulk_clock bulk_with_null waiting)))
       = [''n1'', ''u0'']
   \<and> map n_id (s_queue (snd (sendBulkNotifications uuids bulk_clock bulk_with_null waiting)))
       = [''n1'', ''u0'']"
  by code_simp

section \<open>Retention sweep\<close>

lemma deleteOldNotifications_keeps:
  "set (snd (deleteOldNotifications datetime daysToKeep db)) \<subseteq> set db"
  by (auto simp: deleteOldNotifications_def Let_def)

lemma deleteOldNotifications_count:
  "fst (deleteOldNotifications datetime daysToKeep db)
     + length (snd (deleteOldNotifications datetime daysToKeep db)) = length db"
  by (simp add: deleteOldNotifications_def Let_def sum_length_filter_compl)

lemma deleteOldNotifications_twice:
  "deleteOldNotifications datetime daysToKeep
     (snd (deleteOldNotifications datetime daysToKeep db)) =
   (0, snd (deleteOldNotifications datetime daysToKeep db))"
  by (simp add: deleteOldNotifications_def Let_def)

text \<open>
  A stored \<^verbatim>\<open>createdAt\<close> is a date, the letter \<^verbatim>\<open>T\<close> and a time; the cutoff is a date, a space
  and a time. The letter is above the space, so the comparison of the two texts is the
  comparison of their dates alone, and the sweep keeps every record whose date is not
  before the cutoff's date.
\<close>

lemma less_append_same_length:
  "length xs = length ys \<Longrightarrow>
     (xs @ a # u < ys @ b # v) \<longleftrightarrow> (xs < ys \<or> xs = ys \<and> a # u < b # v)"
  for xs ys :: string
  by (induction xs ys rule: list_induct2) auto

lemma iso_text_below_sqlite_text:
  "length day = length day' \<Longrightarrow>
     (day @ ''T'' @ time < day' @ '' '' @ time') \<longleftrightarrow> day < day'"
  by (simp add: less_append_same_length)

lemma deleteOldNotifications_by_day:
  assumes cutoff: "datetime (case daysToKeep of None \<Rightarrow> 30 | Some d \<Rightarrow> d) = day' @ '' '' @ time'"
      and days: "0 \<le> (case daysToKeep of None \<Rightarrow> 30 | Some d \<Rightarrow> d)"
      and stored: "\<forall>r \<in> set db. \<exists>day time. c_createdAt r = day @ ''T'' @ time \<and> length day = length day'"
  shows "snd (deleteOldNotifications datetime daysToKeep db) =
           filter (\<lambda>r. \<not> take (length day') (c_createdAt r) < day') db"
proof -
  have "\<And>r. r \<in> set db \<Longrightarrow>
          (c_createdAt r < day' @ '' '' @ time') = (take (length day') (c_createdAt r) < day')"
  proof -
    fix r assume "r \<in> set db"
    with stored obtain day time where
      c: "c_createdAt r = day @ ''T'' @ time" and l: "length day = length day'"
      by blast
    show "(c_createdAt r < day' @ '' '' @ time') = (take (length day') (c_createdAt r) < day')"
      unfolding c using l iso_text_below_sqlite_text [OF l, of time time'] by simp
  qed
  then show ?thesis
    using days by (auto simp: deleteOldNotifications_def Let_def cutoff intro!: filter_cong)
qed

text \<open>
  C9. The claim is that the sweep deletes exactly the records created before now minus the
  age. The code compares the stored \<^verbatim>\<open>createdAt\<close>, an ISO text with a \<^verbatim>\<open>T\<close> between date and
  time, with SQLite's \<^verbatim>\<open>datetime\<close> text, which has a space there; as texts, a record of the
  cutoff's own day is never below the cutoff. On 31 January 2024 at 12:00:00 with thirty
  days to keep, the cutoff is 1 January 12:00:00: the record created on 31 December at
  23:59:59 is deleted, and the record created on 1 January at 00:00:00, twelve hours
  before the cutoff, is kept; the count returned is 1.
\<close>

theorem purge_keeps_record_of_cutoff_day:
  "map c_id archive = [''n3'', ''n4'']
   \<and> map c_createdAt archive = [''2023-12-31T23:59:59.000Z'', ''2024-01-01T00:00:00.000Z'']
   \<and> datetime_31_jan 30 = ''2024-01-01 12:00:00''
   \<and> fst (deleteOldNotifications datetime_31_jan (Some 30) archive) = 1
   \<and> map c_id (snd (deleteOldNotifications datetime_31_jan (Some 30) archive)) = [''n4'']"
  by code_simp

section \<open>History queries\<close>



lemma length_order_by_createdAt_desc [simp]:
  "length (order_by_createdAt_desc opts rows) = length rows"
  by (simp add: order_by_createdAt_desc_def)

lemma order_by_createdAt_desc_window [simp]:
  "order_by_createdAt_desc (opts\<lparr>o_limit := l, o_offset := off\<rparr>) = order_by_createdAt_desc opts"
  by (rule ext) (simp add: order_by_createdAt_desc_def)

lemma where_clause_window [simp]:
  "where_clause like (opts\<lparr>o_limit := l, o_offset := off\<rparr>) = where_clause like opts"
  by (rule ext) (simp add: where_clause_def)





end
